theory Spec2Isabelle
  imports Main "HOL-Library.Sublist"
begin

section \<open>Family Talks: roles, the member directory, the admin log and the message store\<close>

text \<open>
  A shallow embedding of \<^verbatim>\<open>src/utils/RolePermissions.ts\<close>,
  \<^verbatim>\<open>src/services/AuthService.ts\<close>, \<^verbatim>\<open>src/services/StorageService.ts\<close> and the
  chat screen (\<^verbatim>\<open>loadChatData\<close>, \<^verbatim>\<open>sendMessage\<close>).

  Conventions of the embedding:
  \<^item> a string is the sequence of the bytes of its UTF-8 encoding, so every string of
    the runtime without a lone surrogate is a \<open>string\<close> of the model, and equality and
    concatenation are those of the runtime;
  \<^item> a \<^verbatim>\<open>FamilyRole\<close> is the string it is at run time, and a role that may be
    \<^verbatim>\<open>undefined\<close> (the property of a stored member, the argument of a function of
    \<^verbatim>\<open>RolePermissions.ts\<close>) is a \<open>FamilyRole option\<close>, so the \<^verbatim>\<open>default\<close> branch of a
    \<^verbatim>\<open>switch\<close> and the truthiness test \<^verbatim>\<open>updates.role ? ... : ...\<close> are branches of
    the model;
  \<^item> a \<^verbatim>\<open>Date\<close> is its number of milliseconds; writing it with \<^verbatim>\<open>JSON.stringify\<close> and
    reading it back with \<^verbatim>\<open>new Date(...)\<close> gives the same date, so the stored collections
    are kept as typed lists;
  \<^item> a key of AsyncStorage is a field of the record \<open>storage\<close>: \<open>None\<close> is the \<^verbatim>\<open>null\<close>
    that \<^verbatim>\<open>getItem\<close> returns for a key never written. The store itself does not fail;
  \<^item> an optional property, and a property an object literal leaves out, is an \<open>option\<close>;
  \<^item> \<^verbatim>\<open>throw new Error(msg)\<close> is \<open>Inl (Error msg)\<close>;
  \<^item> \<^verbatim>\<open>Date.now()\<close>, \<^verbatim>\<open>new Date()\<close> and \<^verbatim>\<open>Math.random()\<close> are read from the record
    \<open>readings\<close>, one field for each place of the source that reads them;
  \<^item> \<^verbatim>\<open>String.prototype.toLowerCase\<close> folds the cased letters of all of Unicode by
    tables of the runtime. The two functions that call it take it as their first
    argument, named \<open>toLowerCase\<close>, and what is proved of them is proved for every such
    function.
\<close>

subsection \<open>Types (\<^verbatim>\<open>types/Message.ts\<close>)\<close>

type_synonym FamilyRole = string

record RolePermissions =
  canAddMembers :: bool
  canRemoveMembers :: bool
  canEditMembers :: bool
  canManageSettings :: bool
  canModerateContent :: bool
  canViewAnalytics :: bool
  canManageBackup :: bool
  canInviteGuests :: bool

record FamilyMember =
  member_id :: string
  name :: string
  avatar :: "string option"
  isOnline :: bool
  lastSeen :: nat
  deviceId :: string
  role :: "FamilyRole option"
  email :: "string option"
  phone :: "string option"
  joinedAt :: nat
  isActive :: bool
  permissions :: RolePermissions

datatype AdminOperation = add_member | remove_member | edit_member | change_role | deactivate_member

record AdminAction =
  action_id :: string
  adminId :: string
  targetMemberId :: "string option"
  operation :: AdminOperation
  details :: string
  action_timestamp :: nat

datatype MessageType = text_msg | image_msg | voice_msg | file_msg | location_msg

datatype MessageStatus = sending | sent | delivered | read_status | failed

text \<open>
  A message as it is at run time: \<open>msg_status\<close> and \<open>isEncrypted\<close> are declared by the
  interface but an object literal may leave them out, and \<open>chatId\<close> is a property the
  chat screen writes although the interface does not declare it. \<open>receiverId\<close> is the
  route parameter \<^verbatim>\<open>memberId\<close>, which may be missing. The optional \<^verbatim>\<open>metadata\<close> is
  never written by the code embedded here and is left out.
\<close>

record Message =
  msg_id :: string
  senderId :: string
  receiverId :: "string option"
  content :: string
  msg_type :: MessageType
  msg_timestamp :: nat
  msg_status :: "MessageStatus option"
  isEncrypted :: "bool option"
  chatId :: "string option"

record FamilySettings =
  familyName :: string
  allowGuestInvites :: bool
  messageRetentionDays :: nat
  requireApprovalForJoining :: bool
  maxMembers :: nat
  autoArchiveOldChats :: bool
  emergencyContacts :: "string list"

text \<open>
  \<^verbatim>\<open>Partial<FamilyMember>\<close>: \<open>None\<close> is a key the object does not have. For the role
  and for the three optional properties a key may also be present with the value
  \<^verbatim>\<open>undefined\<close> (\<open>Some None\<close>), as the admin screen writes it to clear an e-mail
  address; the object spread then stores \<^verbatim>\<open>undefined\<close>. For the other properties a key
  present with the value \<^verbatim>\<open>undefined\<close> is not represented.
\<close>

record MemberUpdates =
  u_id :: "string option"
  u_name :: "string option"
  u_avatar :: "string option option"
  u_isOnline :: "bool option"
  u_lastSeen :: "nat option"
  u_deviceId :: "string option"
  u_role :: "FamilyRole option option"
  u_email :: "string option option"
  u_phone :: "string option option"
  u_joinedAt :: "nat option"
  u_isActive :: "bool option"
  u_permissions :: "RolePermissions option"

datatype error = Error string

subsection \<open>The persisted state and the readings of clock and random source\<close>

record storage =
  CURRENT_USER :: "FamilyMember option"
  FAMILY_MEMBERS :: "FamilyMember list option"
  FAMILY_CODE :: "string option"
  ADMIN_ACTIONS :: "AdminAction list option"
  FAMILY_SETTINGS :: "FamilySettings option"
  MESSAGES :: "Message list option"

definition empty_storage :: storage where
  "empty_storage =
     \<lparr>CURRENT_USER = None, FAMILY_MEMBERS = None, FAMILY_CODE = None,
      ADMIN_ACTIONS = None, FAMILY_SETTINGS = None, MESSAGES = None\<rparr>"

record readings =
  id_time :: nat
  id_rand :: string
  seen_time :: nat
  device_time :: nat
  device_rand :: string
  joined_time :: nat
  action_time :: nat
  action_rand :: string
  logged_time :: nat
  msg_time :: nat
  msg_rand :: string
  sent_time :: nat

subsection \<open>Strings of the JavaScript runtime\<close>

text \<open>The decimal numeral that string concatenation gives a non-negative integer.\<close>

fun decimal :: "nat \<Rightarrow> string" where
  "decimal n =
     (if n < 10 then [''0123456789'' ! n]
      else decimal (n div 10) @ [''0123456789'' ! (n mod 10)])"

declare decimal.simps [simp del]

text \<open>
  \<^verbatim>\<open>String.prototype.trim\<close> removes the white space and the line terminators of
  ECMAScript from both ends: U+0009 to U+000D, U+0020, U+00A0, U+1680, U+2000 to U+200A,
  U+2028, U+2029, U+202F, U+205F, U+3000 and U+FEFF. \<open>white_space\<close> lists their UTF-8
  encodings. In well-formed UTF-8 one of these byte sequences at the start or at the end
  of a string is that character and not a part of another one.
\<close>

definition white_space :: "string list" where
  "white_space =
     [[CHR 0x09], [CHR 0x0A], [CHR 0x0B], [CHR 0x0C], [CHR 0x0D], [CHR 0x20],
      [CHR 0xC2, CHR 0xA0],
      [CHR 0xE1, CHR 0x9A, CHR 0x80],
      [CHR 0xE2, CHR 0x80, CHR 0x80], [CHR 0xE2, CHR 0x80, CHR 0x81],
      [CHR 0xE2, CHR 0x80, CHR 0x82], [CHR 0xE2, CHR 0x80, CHR 0x83],
      [CHR 0xE2, CHR 0x80, CHR 0x84], [CHR 0xE2, CHR 0x80, CHR 0x85],
      [CHR 0xE2, CHR 0x80, CHR 0x86], [CHR 0xE2, CHR 0x80, CHR 0x87],
      [CHR 0xE2, CHR 0x80, CHR 0x88], [CHR 0xE2, CHR 0x80, CHR 0x89],
      [CHR 0xE2, CHR 0x80, CHR 0x8A],
      [CHR 0xE2, CHR 0x80, CHR 0xA8], [CHR 0xE2, CHR 0x80, CHR 0xA9],
      [CHR 0xE2, CHR 0x80, CHR 0xAF],
      [CHR 0xE2, CHR 0x81, CHR 0x9F],
      [CHR 0xE3, CHR 0x80, CHR 0x80],
      [CHR 0xEF, CHR 0xBB, CHR 0xBF]]"

text \<open>\<open>strip ws s\<close> removes from the start of \<open>s\<close> every leading member of \<open>ws\<close>.\<close>

function strip :: "string list \<Rightarrow> string \<Rightarrow> string" where
  "strip ws s =
     (case find (\<lambda>w. w \<noteq> [] \<and> prefix w s) ws of
        Some w \<Rightarrow> strip ws (drop (length w) s)
      | None \<Rightarrow> s)"
  by pat_completeness auto

termination
proof (relation "measure (\<lambda>(ws, s). length s)")
  show "wf (measure (\<lambda>(ws, s). length s))"
    by simp
next
  fix ws :: "string list" and s w :: string
  assume "find (\<lambda>w. w \<noteq> [] \<and> prefix w s) ws = Some w"
  then have "w \<noteq> []" and "prefix w s"
    by (auto simp: find_Some_iff)
  then have "0 < length w" and "length w \<le> length s"
    by (auto simp: prefix_length_le)
  then have "length s - length w < length s"
    by arith
  then show "((ws, drop (length w) s), (ws, s)) \<in> measure (\<lambda>(ws, s). length s)"
    by simp
qed

declare strip.simps [simp del]

definition trimStart :: "string \<Rightarrow> string" where
  "trimStart s = strip white_space s"

definition trimEnd :: "string \<Rightarrow> string" where
  "trimEnd s = rev (strip (map rev white_space) (rev s))"

definition trim :: "string \<Rightarrow> string" where
  "trim s = trimEnd (trimStart s)"

subsection \<open>\<^verbatim>\<open>RolePermissions.ts\<close>\<close>

text \<open>
  The argument of the \<^verbatim>\<open>switch\<close> is compared with \<^verbatim>\<open>===\<close>; \<open>None\<close> is the argument
  \<^verbatim>\<open>undefined\<close>, which only the \<^verbatim>\<open>default\<close> branch takes.
\<close>

definition getRolePermissions :: "FamilyRole option \<Rightarrow> RolePermissions" where
  "getRolePermissions r =
     (if r = Some ''admin'' then
        \<lparr>canAddMembers = True, canRemoveMembers = True, canEditMembers = True,
         canManageSettings = True, canModerateContent = True, canViewAnalytics = True,
         canManageBackup = True, canInviteGuests = True\<rparr>
      else if r = Some ''parent'' then
        \<lparr>canAddMembers = True, canRemoveMembers = False, canEditMembers = True,
         canManageSettings = False, canModerateContent = True, canViewAnalytics = True,
         canManageBackup = False, canInviteGuests = True\<rparr>
      else if r = Some ''grandparent'' then
        \<lparr>canAddMembers = False, canRemoveMembers = False, canEditMembers = False,
         canManageSettings = False, canModerateContent = False, canViewAnalytics = True,
         canManageBackup = False, canInviteGuests = False\<rparr>
      else if r = Some ''child'' then
        \<lparr>canAddMembers = False, canRemoveMembers = False, canEditMembers = False,
         canManageSettings = False, canModerateContent = False, canViewAnalytics = False,
         canManageBackup = False, canInviteGuests = False\<rparr>
      else
        \<lparr>canAddMembers = False, canRemoveMembers = False, canEditMembers = False,
         canManageSettings = False, canModerateContent = False, canViewAnalytics = False,
         canManageBackup = False, canInviteGuests = False\<rparr>)"

text \<open>\<^verbatim>\<open>permission: keyof RolePermissions\<close> is the selector of the field.\<close>

definition hasPermission :: "FamilyRole option \<Rightarrow> (RolePermissions \<Rightarrow> bool) \<Rightarrow> bool" where
  "hasPermission userRole permission = permission (getRolePermissions userRole)"

definition isAdmin :: "FamilyRole option \<Rightarrow> bool" where
  "isAdmin userRole = (userRole = Some ''admin'')"

definition canManageMembers :: "FamilyRole option \<Rightarrow> bool" where
  "canManageMembers userRole =
     (hasPermission userRole canAddMembers \<or> hasPermission userRole canRemoveMembers \<or>
      hasPermission userRole canEditMembers)"

definition getAvailableRoles :: "FamilyRole list" where
  "getAvailableRoles = [''admin'', ''parent'', ''grandparent'', ''child'', ''other'']"

definition canChangeRole ::
  "FamilyRole option \<Rightarrow> FamilyRole option \<Rightarrow> FamilyRole option \<Rightarrow> bool"
where
  "canChangeRole currentRole newRole adminRole =
     (if adminRole \<noteq> Some ''admin'' then False
      else if currentRole = Some ''admin'' \<and> newRole \<noteq> Some ''admin'' then False
      else if newRole = Some ''admin'' then False
      else True)"

subsection \<open>\<^verbatim>\<open>AuthService.ts\<close>: helpers\<close>

text \<open>JavaScript truthiness of a string that may be \<^verbatim>\<open>null\<close> or \<^verbatim>\<open>undefined\<close>, and \<^verbatim>\<open>a || b\<close>.\<close>

definition truthy :: "string option \<Rightarrow> bool" where
  "truthy s = (case s of None \<Rightarrow> False | Some v \<Rightarrow> v \<noteq> [])"

definition or_else :: "string option \<Rightarrow> string \<Rightarrow> string" where
  "or_else a b = (case a of None \<Rightarrow> b | Some v \<Rightarrow> if v = [] then b else v)"

text \<open>A string that may be \<^verbatim>\<open>undefined\<close>, inside a template literal.\<close>

definition interpolate :: "string option \<Rightarrow> string" where
  "interpolate a = (case a of None \<Rightarrow> ''undefined'' | Some v \<Rightarrow> v)"

text \<open>\<^verbatim>\<open>Array.prototype.findIndex\<close>; \<open>None\<close> is the result \<^verbatim>\<open>-1\<close>.\<close>

fun findIndex :: "('a \<Rightarrow> bool) \<Rightarrow> 'a list \<Rightarrow> nat option" where
  "findIndex P [] = None"
| "findIndex P (x # xs) = (if P x then Some 0 else map_option Suc (findIndex P xs))"

text \<open>
  \<^verbatim>\<open>Array.prototype.find\<close> is \<^const>\<open>find\<close>. It returns a reference to the first
  matching element, so assigning to the fields of its result changes that element of the
  array: \<open>mutate_first\<close>.
\<close>

fun mutate_first :: "('a \<Rightarrow> bool) \<Rightarrow> ('a \<Rightarrow> 'a) \<Rightarrow> 'a list \<Rightarrow> 'a list" where
  "mutate_first P f [] = []"
| "mutate_first P f (x # xs) = (if P x then f x # xs else x # mutate_first P f xs)"

text \<open>\<^verbatim>\<open>xs.slice(-n)\<close>: the elements from index \<open>max (length xs - n) 0\<close> on.\<close>

definition slice_last :: "nat \<Rightarrow> 'a list \<Rightarrow> 'a list" where
  "slice_last n xs = drop (length xs - n) xs"

definition generateUserId :: "readings \<Rightarrow> string" where
  "generateUserId rd = ''user_'' @ decimal (id_time rd) @ ''_'' @ id_rand rd"

definition generateActionId :: "readings \<Rightarrow> string" where
  "generateActionId rd = ''action_'' @ decimal (action_time rd) @ ''_'' @ action_rand rd"

definition getDeviceId :: "readings \<Rightarrow> string" where
  "getDeviceId rd = ''device_'' @ decimal (device_time rd) @ ''_'' @ device_rand rd"

definition getCurrentUser :: "readings \<Rightarrow> storage \<Rightarrow> FamilyMember option" where
  "getCurrentUser rd st =
     (case CURRENT_USER st of
        Some user \<Rightarrow> Some (user\<lparr>lastSeen := seen_time rd\<rparr>)
      | None \<Rightarrow> None)"

definition setCurrentUser :: "FamilyMember \<Rightarrow> storage \<Rightarrow> storage" where
  "setCurrentUser user st = st\<lparr>CURRENT_USER := Some user\<rparr>"

definition getFamilyMembers :: "storage \<Rightarrow> FamilyMember list" where
  "getFamilyMembers st = (case FAMILY_MEMBERS st of Some members \<Rightarrow> members | None \<Rightarrow> [])"

definition saveFamilyMembers :: "FamilyMember list \<Rightarrow> storage \<Rightarrow> storage" where
  "saveFamilyMembers members st = st\<lparr>FAMILY_MEMBERS := Some members\<rparr>"

definition saveFamilySettings :: "FamilySettings \<Rightarrow> storage \<Rightarrow> storage" where
  "saveFamilySettings settings st = st\<lparr>FAMILY_SETTINGS := Some settings\<rparr>"

definition getAdminActions :: "storage \<Rightarrow> AdminAction list" where
  "getAdminActions st = (case ADMIN_ACTIONS st of Some actions \<Rightarrow> actions | None \<Rightarrow> [])"

text \<open>The record \<^verbatim>\<open>newAction\<close> that \<^verbatim>\<open>logAdminAction\<close> builds, and the function itself.\<close>

definition newAction ::
  "readings \<Rightarrow> string \<Rightarrow> AdminOperation \<Rightarrow> string option \<Rightarrow> string option \<Rightarrow> AdminAction"
where
  "newAction rd admin op target detail =
     \<lparr>action_id = generateActionId rd, adminId = admin, targetMemberId = target,
      operation = op, details = or_else detail [], action_timestamp = logged_time rd\<rparr>"

definition logAdminAction ::
  "readings \<Rightarrow> string \<Rightarrow> AdminOperation \<Rightarrow> string option \<Rightarrow> string option \<Rightarrow> storage \<Rightarrow> storage"
where
  "logAdminAction rd admin op target detail st =
     (let actions = (case ADMIN_ACTIONS st of Some stored \<Rightarrow> stored | None \<Rightarrow> []);
          pushed = actions @ [newAction rd admin op target detail];
          kept = (if length pushed > 100 then slice_last 100 pushed else pushed)
      in st\<lparr>ADMIN_ACTIONS := Some kept\<rparr>)"

subsection \<open>\<^verbatim>\<open>AuthService.ts\<close>: the member directory\<close>

text \<open>
  \<open>authenticateFamilyMember\<close> returns \<^verbatim>\<open>null\<close> (\<open>None\<close>) for a family code that is
  not the stored one.
\<close>

definition authenticateFamilyMember ::
  "(string \<Rightarrow> string) \<Rightarrow> readings \<Rightarrow> string \<Rightarrow> string \<Rightarrow> storage \<Rightarrow>
   FamilyMember option \<times> storage"
where
  "authenticateFamilyMember toLowerCase rd familyCode memberName st =
     (if FAMILY_CODE st \<noteq> Some familyCode then (None, st)
      else
        let familyMembers = (case FAMILY_MEMBERS st of Some members \<Rightarrow> members | None \<Rightarrow> []);
            same_name = (\<lambda>member. toLowerCase (name member) = toLowerCase memberName);
            touch = (\<lambda>member. member\<lparr>lastSeen := seen_time rd, isOnline := True\<rparr>)
        in
          (case find same_name familyMembers of
             Some found \<Rightarrow>
               let existingUser = touch found
               in (Some existingUser,
                   setCurrentUser existingUser
                     (saveFamilyMembers (mutate_first same_name touch familyMembers) st))
           | None \<Rightarrow>
               let newMember =
                     \<lparr>member_id = generateUserId rd, name = memberName, avatar = None,
                      isOnline = True, lastSeen = seen_time rd, deviceId = getDeviceId rd,
                      role = Some ''other'', email = None, phone = None,
                      joinedAt = joined_time rd, isActive = True,
                      permissions = getRolePermissions (Some ''other'')\<rparr>
               in (Some newMember,
                   setCurrentUser newMember
                     (saveFamilyMembers (familyMembers @ [newMember]) st))))"

text \<open>
  In \<open>createFamily\<close> the error \<^verbatim>\<open>Family already exists\<close> is thrown inside the
  \<^verbatim>\<open>try\<close> block, whose \<^verbatim>\<open>catch\<close> throws \<^verbatim>\<open>Failed to create family\<close> in its place.
\<close>

definition createFamily ::
  "readings \<Rightarrow> string \<Rightarrow> string \<Rightarrow> storage \<Rightarrow> error + (FamilyMember \<times> storage)"
where
  "createFamily rd familyCode memberName st =
     (if truthy (FAMILY_CODE st) then Inl (Error ''Failed to create family'')
      else
        let adminMember =
              \<lparr>member_id = generateUserId rd, name = memberName, avatar = None,
               isOnline = True, lastSeen = seen_time rd, deviceId = getDeviceId rd,
               role = Some ''admin'', email = None, phone = None,
               joinedAt = joined_time rd, isActive = True,
               permissions = getRolePermissions (Some ''admin'')\<rparr>;
            st1 = st\<lparr>FAMILY_CODE := Some familyCode\<rparr>;
            st2 = saveFamilyMembers [adminMember] st1;
            st3 = setCurrentUser adminMember st2;
            defaultSettings =
              \<lparr>familyName = memberName @ [CHR 0x27] @ ''s Family'', allowGuestInvites = False,
               messageRetentionDays = 365, requireApprovalForJoining = False,
               maxMembers = 20, autoArchiveOldChats = True, emergencyContacts = []\<rparr>
        in Inr (adminMember, saveFamilySettings defaultSettings st3))"


text \<open>
  The object spread \<^verbatim>\<open>{...member, ...updates}\<close>: every key \<^verbatim>\<open>updates\<close> has replaces the
  member's, also a key whose value is \<^verbatim>\<open>undefined\<close>. \<open>updates_role\<close> is the value of
  the expression \<^verbatim>\<open>updates.role\<close>, which is \<^verbatim>\<open>undefined\<close> for a missing key too.
\<close>

definition updates_role :: "MemberUpdates \<Rightarrow> FamilyRole option" where
  "updates_role updates = (case u_role updates of Some v \<Rightarrow> v | None \<Rightarrow> None)"

definition spread :: "FamilyMember \<Rightarrow> MemberUpdates \<Rightarrow> FamilyMember" where
  "spread member updates =
     \<lparr>member_id = (case u_id updates of Some v \<Rightarrow> v | None \<Rightarrow> member_id member),
      name = (case u_name updates of Some v \<Rightarrow> v | None \<Rightarrow> name member),
      avatar = (case u_avatar updates of Some v \<Rightarrow> v | None \<Rightarrow> avatar member),
      isOnline = (case u_isOnline updates of Some v \<Rightarrow> v | None \<Rightarrow> isOnline member),
      lastSeen = (case u_lastSeen updates of Some v \<Rightarrow> v | None \<Rightarrow> lastSeen member),
      deviceId = (case u_deviceId updates of Some v \<Rightarrow> v | None \<Rightarrow> deviceId member),
      role = (case u_role updates of Some v \<Rightarrow> v | None \<Rightarrow> role member),
      email = (case u_email updates of Some v \<Rightarrow> v | None \<Rightarrow> email member),
      phone = (case u_phone updates of Some v \<Rightarrow> v | None \<Rightarrow> phone member),
      joinedAt = (case u_joinedAt updates of Some v \<Rightarrow> v | None \<Rightarrow> joinedAt member),
      isActive = (case u_isActive updates of Some v \<Rightarrow> v | None \<Rightarrow> isActive member),
      permissions = (case u_permissions updates of Some v \<Rightarrow> v | None \<Rightarrow> permissions member)\<rparr>"

definition editFamilyMember ::
  "readings \<Rightarrow> FamilyMember \<Rightarrow> string \<Rightarrow> MemberUpdates \<Rightarrow> storage \<Rightarrow>
   error + (FamilyMember \<times> storage)"
where
  "editFamilyMember rd adminUser memberId updates st =
     (if \<not> hasPermission (role adminUser) canEditMembers
      then Inl (Error ''Insufficient permissions to edit family members'')
      else
        let familyMembers = getFamilyMembers st
        in
          (case findIndex (\<lambda>member. member_id member = memberId) familyMembers of
             None \<Rightarrow> Inl (Error ''Family member not found'')
           | Some memberIndex \<Rightarrow>
               let member = familyMembers ! memberIndex
               in
                 if truthy (updates_role updates) \<and> role member = Some ''admin'' \<and>
                    memberId \<noteq> member_id adminUser
                 then Inl (Error ''Cannot change admin role'')
                 else
                   let updatedMember =
                         (spread member updates)
                           \<lparr>permissions :=
                              (if truthy (updates_role updates)
                               then getRolePermissions (updates_role updates)
                               else permissions member)\<rparr>;
                       st1 = saveFamilyMembers (familyMembers[memberIndex := updatedMember]) st;
                       st2 = logAdminAction rd (member_id adminUser) edit_member (Some memberId)
                               (Some (''Edited family member: '' @ name member)) st1
                   in Inr (updatedMember, st2)))"

definition removeFamilyMember ::
  "readings \<Rightarrow> FamilyMember \<Rightarrow> string \<Rightarrow> storage \<Rightarrow> error + storage"
where
  "removeFamilyMember rd adminUser memberId st =
     (if \<not> hasPermission (role adminUser) canRemoveMembers
      then Inl (Error ''Insufficient permissions to remove family members'')
      else
        let familyMembers = getFamilyMembers st
        in
          (case find (\<lambda>m. member_id m = memberId) familyMembers of
             None \<Rightarrow> Inl (Error ''Family member not found'')
           | Some member \<Rightarrow>
               if role member = Some ''admin'' then Inl (Error ''Cannot remove admin member'')
               else if memberId = member_id adminUser then Inl (Error ''Cannot remove yourself'')
               else
                 let updatedMembers = filter (\<lambda>m. member_id m \<noteq> memberId) familyMembers;
                     st1 = saveFamilyMembers updatedMembers st;
                     st2 = logAdminAction rd (member_id adminUser) remove_member (Some memberId)
                             (Some (''Removed family member: '' @ name member)) st1
                 in Inr st2))"

definition changeMemberRole ::
  "readings \<Rightarrow> FamilyMember \<Rightarrow> string \<Rightarrow> FamilyRole \<Rightarrow> storage \<Rightarrow>
   error + (FamilyMember \<times> storage)"
where
  "changeMemberRole rd adminUser memberId newRole st =
     (if \<not> hasPermission (role adminUser) canEditMembers
      then Inl (Error ''Insufficient permissions to change member roles'')
      else
        let familyMembers = getFamilyMembers st
        in
          (case findIndex (\<lambda>member. member_id member = memberId) familyMembers of
             None \<Rightarrow> Inl (Error ''Family member not found'')
           | Some memberIndex \<Rightarrow>
               let member = familyMembers ! memberIndex
               in
                 if role member = Some ''admin'' then Inl (Error ''Cannot change admin role'')
                 else
                   let updatedMember =
                         member\<lparr>role := Some newRole,
                                permissions := getRolePermissions (Some newRole)\<rparr>;
                       st1 = saveFamilyMembers (familyMembers[memberIndex := updatedMember]) st;
                       st2 = logAdminAction rd (member_id adminUser) change_role (Some memberId)
                               (Some (''Changed role of '' @ name member @ '' from '' @
                                      interpolate (role member) @ '' to '' @ newRole)) st1
                   in Inr (updatedMember, st2)))"

subsection \<open>\<^verbatim>\<open>StorageService.ts\<close> and the chat screen\<close>

definition getMessages :: "storage \<Rightarrow> Message list" where
  "getMessages st = (case MESSAGES st of Some stored \<Rightarrow> stored | None \<Rightarrow> [])"

definition saveMessages :: "Message list \<Rightarrow> storage \<Rightarrow> storage" where
  "saveMessages msgs st = st\<lparr>MESSAGES := Some msgs\<rparr>"

definition addMessage :: "Message \<Rightarrow> storage \<Rightarrow> storage" where
  "addMessage message st = saveMessages (getMessages st @ [message]) st"

text \<open>
  The state of the chat screen. The route parameters \<^verbatim>\<open>chatId\<close> and \<^verbatim>\<open>memberId\<close> are
  arguments; \<open>None\<close> is a parameter the route does not carry.
\<close>

record ChatScreen =
  messages :: "Message list"
  newMessage :: string
  currentUser :: "FamilyMember option"
  isLoading :: bool

definition loadChatData ::
  "readings \<Rightarrow> string option \<Rightarrow> string option \<Rightarrow> storage \<Rightarrow> ChatScreen \<Rightarrow> ChatScreen"
where
  "loadChatData rd routeChatId routeMemberId st cs =
     (let user = getCurrentUser rd st;
          userId = map_option member_id user;
          cs1 = cs\<lparr>isLoading := True, currentUser := user\<rparr>;
          cs2 =
            (if truthy routeChatId then
               cs1\<lparr>messages := filter (\<lambda>msg. chatId msg = routeChatId) (getMessages st)\<rparr>
             else if truthy routeMemberId then
               cs1\<lparr>messages :=
                     filter
                       (\<lambda>msg. (Some (senderId msg) = routeMemberId \<and> receiverId msg = userId) \<or>
                              (Some (senderId msg) = userId \<and> receiverId msg = routeMemberId))
                       (getMessages st)\<rparr>
             else cs1)
      in cs2\<lparr>isLoading := False\<rparr>)"

text \<open>The object \<^verbatim>\<open>message\<close> that \<^verbatim>\<open>sendMessage\<close> builds, and the function itself.\<close>

definition newChatMessage ::
  "readings \<Rightarrow> string option \<Rightarrow> string option \<Rightarrow> FamilyMember \<Rightarrow> string \<Rightarrow> Message"
where
  "newChatMessage rd routeChatId routeMemberId user typed =
     \<lparr>msg_id = ''msg_'' @ decimal (msg_time rd) @ ''_'' @ msg_rand rd,
      senderId = member_id user,
      receiverId = routeMemberId,
      content = trim typed,
      msg_type = text_msg,
      msg_timestamp = sent_time rd,
      msg_status = None,
      isEncrypted = None,
      chatId =
        Some (or_else routeChatId
                (''chat_'' @ member_id user @ ''_'' @
                 (case routeMemberId of Some m \<Rightarrow> m | None \<Rightarrow> ''undefined'')))\<rparr>"

definition sendMessage ::
  "readings \<Rightarrow> string option \<Rightarrow> string option \<Rightarrow> ChatScreen \<Rightarrow> storage \<Rightarrow> ChatScreen \<times> storage"
where
  "sendMessage rd routeChatId routeMemberId cs st =
     (case currentUser cs of
        None \<Rightarrow> (cs, st)
      | Some user \<Rightarrow>
          if trim (newMessage cs) = [] then (cs, st)
          else
            let message = newChatMessage rd routeChatId routeMemberId user (newMessage cs);
                st1 = addMessage message st
            in (cs\<lparr>messages := messages cs @ [message], newMessage := []\<rparr>, st1))"

subsection \<open>The invariant of the member directory\<close>


subsection \<open>Example data\<close>

text \<open>
  The family of the specification's scenario: Alice created the family \<^verbatim>\<open>FAM123\<close> and is
  its administrator, Bob is a child she added. Carol is a parent.
\<close>

definition rd0 :: readings where
  "rd0 =
     \<lparr>id_time = 1700, id_rand = ''k3x9q2m7p'', seen_time = 1701,
      device_time = 1702, device_rand = ''d8w1z5c0r'', joined_time = 1703,
      action_time = 1704, action_rand = ''a4b6e2y1t'', logged_time = 1705,
      msg_time = 1706, msg_rand = ''m0n5v3u8s'', sent_time = 1707\<rparr>"

text \<open>
  A function to stand for \<^verbatim>\<open>toLowerCase\<close> in the examples: it folds the letters A to Z
  and leaves every other byte, as the runtime's function does on ASCII text.
\<close>

definition lower_ascii :: "string \<Rightarrow> string" where
  "lower_ascii s =
     map (\<lambda>c. case map_of (zip ''ABCDEFGHIJKLMNOPQRSTUVWXYZ'' ''abcdefghijklmnopqrstuvwxyz'') c of
                None \<Rightarrow> c
              | Some d \<Rightarrow> d) s"

definition alice :: FamilyMember where
  "alice =
     \<lparr>member_id = ''user_1_alice'', name = ''Alice'', avatar = None, isOnline = True,
      lastSeen = 1000, deviceId = ''device_1_a'', role = Some ''admin'', email = None,
      phone = None, joinedAt = 1000, isActive = True,
      permissions = getRolePermissions (Some ''admin'')\<rparr>"

definition bob :: FamilyMember where
  "bob =
     \<lparr>member_id = ''user_2_bob'', name = ''Bob'', avatar = None, isOnline = False,
      lastSeen = 1100, deviceId = [], role = Some ''child'', email = None,
      phone = None, joinedAt = 1100, isActive = True,
      permissions = getRolePermissions (Some ''child'')\<rparr>"


definition family0 :: storage where
  "family0 =
     \<lparr>CURRENT_USER = Some alice, FAMILY_MEMBERS = Some [alice, bob],
      FAMILY_CODE = Some ''FAM123'', ADMIN_ACTIONS = None, FAMILY_SETTINGS = None,
      MESSAGES = None\<rparr>"


definition no_updates :: MemberUpdates where
  "no_updates =
     \<lparr>u_id = None, u_name = None, u_avatar = None, u_isOnline = None, u_lastSeen = None,
      u_deviceId = None, u_role = None, u_email = None, u_phone = None, u_joinedAt = None,
      u_isActive = None, u_permissions = None\<rparr>"

definition chat0 :: ChatScreen where
  "chat0 =
     \<lparr>messages = [], newMessage = '' hi Bob '', currentUser = Some alice, isLoading = False\<rparr>"

definition old_action :: "nat \<Rightarrow> AdminAction" where
  "old_action k =
     \<lparr>action_id = ''action_'' @ decimal k @ ''_x'', adminId = ''user_1_alice'',
      targetMemberId = None, operation = edit_member, details = [], action_timestamp = k\<rparr>"

definition full_log :: storage where
  "full_log = family0\<lparr>ADMIN_ACTIONS := Some (map old_action [1..<101])\<rparr>"

definition letter :: "string \<Rightarrow> string \<Rightarrow> string \<Rightarrow> Message" where
  "letter sender receiver words =
     \<lparr>msg_id = ''msg_'' @ words, senderId = sender, receiverId = Some receiver,
      content = words, msg_type = text_msg, msg_timestamp = 1200, msg_status = None,
      isEncrypted = None, chatId = None\<rparr>"

definition mailbox :: storage where
  "mailbox =
     family0
       \<lparr>MESSAGES :=
          Some [letter ''user_1_alice'' ''user_2_bob'' ''one'',
                letter ''user_2_bob'' ''user_1_alice'' ''two'',
                letter ''user_2_bob'' ''user_3_carol'' ''three'',
                letter ''user_3_carol'' ''user_1_alice'' ''four'',
                letter ''user_1_alice'' ''user_2_bob'' ''five'']\<rparr>"

section \<open>Properties\<close>

subsection \<open>Auxiliary facts\<close>

lemma findIndex_Some:
  "findIndex P xs = Some i \<Longrightarrow> i < length xs \<and> P (xs ! i)"
proof (induction xs arbitrary: i)
  case Nil
  then show ?case by simp
next
  case (Cons x xs)
  show ?case
  proof (cases "P x")
    case True
    with Cons.prems show ?thesis by simp
  next
    case False
    with Cons.prems obtain j where j: "findIndex P xs = Some j" and i: "i = Suc j"
      by auto
    from Cons.IH [OF j] i show ?thesis by simp
  qed
qed

lemma find_findIndex:
  "find P xs = Some x \<Longrightarrow> \<exists>i. findIndex P xs = Some i \<and> xs ! i = x"
proof (induction xs)
  case Nil
  then show ?case by simp
next
  case (Cons y ys)
  show ?case
  proof (cases "P y")
    case True
    with Cons.prems show ?thesis by simp
  next
    case False
    with Cons.prems have "find P ys = Some x" by simp
    from Cons.IH [OF this] obtain j where "findIndex P ys = Some j" and "ys ! j = x"
      by blast
    with False show ?thesis by simp
  qed
qed

lemma filter_update_count:
  "i < length xs \<Longrightarrow> \<not> P (xs ! i) \<Longrightarrow> P y \<Longrightarrow>
     length (filter P (xs[i := y])) = Suc (length (filter P xs))"
proof (induction xs arbitrary: i)
  case Nil
  then show ?case by simp
next
  case (Cons x xs)
  show ?case
  proof (cases i)
    case 0
    with Cons.prems show ?thesis by simp
  next
    case (Suc j)
    with Cons.prems have "j < length xs" and "\<not> P (xs ! j)"
      by simp_all
    from Cons.IH [OF this Cons.prems(3)] Suc show ?thesis by simp
  qed
qed

lemma canRemove_iff_admin: "hasPermission r canRemoveMembers = (r = Some ''admin'')"
  by (simp add: hasPermission_def getRolePermissions_def)

lemma getAdminActions_logAdminAction:
  "getAdminActions (logAdminAction rd admin op target detail st) =
     slice_last 100 (getAdminActions st @ [newAction rd admin op target detail])"
  by (simp add: getAdminActions_def logAdminAction_def Let_def slice_last_def split: option.splits)

lemma getFamilyMembers_logAdminAction [simp]:
  "getFamilyMembers (logAdminAction rd admin op target detail st) = getFamilyMembers st"
  by (simp add: getFamilyMembers_def logAdminAction_def Let_def)

lemma getFamilyMembers_saveFamilyMembers [simp]:
  "getFamilyMembers (saveFamilyMembers members st) = members"
  by (simp add: getFamilyMembers_def saveFamilyMembers_def)

lemma getAdminActions_saveFamilyMembers [simp]:
  "getAdminActions (saveFamilyMembers members st) = getAdminActions st"
  by (simp add: getAdminActions_def saveFamilyMembers_def)

lemma getFamilyMembers_setCurrentUser [simp]:
  "getFamilyMembers (setCurrentUser user st) = getFamilyMembers st"
  by (simp add: getFamilyMembers_def setCurrentUser_def)

lemma getFamilyMembers_saveFamilySettings [simp]:
  "getFamilyMembers (saveFamilySettings settings st) = getFamilyMembers st"
  by (simp add: getFamilyMembers_def saveFamilySettings_def)






text \<open>White space at the ends of the examples' texts.\<close>

lemma trim_hi_bob: "trim '' hi Bob '' = ''hi Bob''"
  by (simp add: trim_def trimStart_def trimEnd_def white_space_def strip.simps)

lemma trim_two_spaces: "trim ''  '' = []"
  by (simp add: trim_def trimStart_def trimEnd_def white_space_def strip.simps)

lemma trim_no_break_space: "trim [CHR 0xC2, CHR 0xA0] = []"
  by (simp add: trim_def trimStart_def trimEnd_def white_space_def strip.simps)






lemma changeMemberRole_result:
  assumes "hasPermission (role adminUser) canEditMembers"
    and "findIndex (\<lambda>member. member_id member = memberId) (getFamilyMembers st) = Some i"
    and "role (getFamilyMembers st ! i) \<noteq> Some ''admin''"
  shows "changeMemberRole rd adminUser memberId newRole st =
           Inr ((getFamilyMembers st ! i)
                  \<lparr>role := Some newRole, permissions := getRolePermissions (Some newRole)\<rparr>,
                logAdminAction rd (member_id adminUser) change_role (Some memberId)
                  (Some (''Changed role of '' @ name (getFamilyMembers st ! i) @ '' from '' @
                         interpolate (role (getFamilyMembers st ! i)) @ '' to '' @ newRole))
                  (saveFamilyMembers
                     ((getFamilyMembers st)
                        [i := (getFamilyMembers st ! i)
                                \<lparr>role := Some newRole,
                                 permissions := getRolePermissions (Some newRole)\<rparr>])
                     st))"
  using assms by (simp add: changeMemberRole_def Let_def)


text \<open>Alice promotes Bob.\<close>

lemma promote_bob:
  "changeMemberRole rd0 alice ''user_2_bob'' ''admin'' family0 =
     Inr (bob\<lparr>role := Some ''admin'', permissions := getRolePermissions (Some ''admin'')\<rparr>,
          logAdminAction rd0 ''user_1_alice'' change_role (Some ''user_2_bob'')
            (Some ''Changed role of Bob from child to admin'')
            (saveFamilyMembers
               [alice,
                bob\<lparr>role := Some ''admin'', permissions := getRolePermissions (Some ''admin'')\<rparr>]
               family0))"
  by (simp add: changeMemberRole_def hasPermission_def getRolePermissions_def alice_def bob_def
      family0_def getFamilyMembers_def interpolate_def Let_def)

subsection \<open>The role-permission table\<close>

text \<open>
  Claim C1. For each of the five roles \<open>getRolePermissions\<close> returns the row of the
  canonical table (add, remove, edit, settings, moderate, analytics, backup, guests):
  administrator all eight; parent add, edit, moderate, analytics and guests; grandparent
  analytics only; child and other none. For every other argument, a string outside the
  enumeration or \<^verbatim>\<open>undefined\<close>, every capability is false.
\<close>

theorem getRolePermissions_table:
  "getRolePermissions (Some ''admin'') =
     \<lparr>canAddMembers = True, canRemoveMembers = True, canEditMembers = True,
      canManageSettings = True, canModerateContent = True, canViewAnalytics = True,
      canManageBackup = True, canInviteGuests = True\<rparr> \<and>
   getRolePermissions (Some ''parent'') =
     \<lparr>canAddMembers = True, canRemoveMembers = False, canEditMembers = True,
      canManageSettings = False, canModerateContent = True, canViewAnalytics = True,
      canManageBackup = False, canInviteGuests = True\<rparr> \<and>
   getRolePermissions (Some ''grandparent'') =
     \<lparr>canAddMembers = False, canRemoveMembers = False, canEditMembers = False,
      canManageSettings = False, canModerateContent = False, canViewAnalytics = True,
      canManageBackup = False, canInviteGuests = False\<rparr> \<and>
   getRolePermissions (Some ''child'') =
     \<lparr>canAddMembers = False, canRemoveMembers = False, canEditMembers = False,
      canManageSettings = False, canModerateContent = False, canViewAnalytics = False,
      canManageBackup = False, canInviteGuests = False\<rparr> \<and>
   getRolePermissions (Some ''other'') =
     \<lparr>canAddMembers = False, canRemoveMembers = False, canEditMembers = False,
      canManageSettings = False, canModerateContent = False, canViewAnalytics = False,
      canManageBackup = False, canInviteGuests = False\<rparr> \<and>
   (r \<notin> Some ` set getAvailableRoles \<longrightarrow>
      getRolePermissions r =
        \<lparr>canAddMembers = False, canRemoveMembers = False, canEditMembers = False,
         canManageSettings = False, canModerateContent = False, canViewAnalytics = False,
         canManageBackup = False, canInviteGuests = False\<rparr>)"
  by (auto simp: getRolePermissions_def getAvailableRoles_def)

theorem getRolePermissions_table_witness:
  "Some ''guest'' \<notin> Some ` set getAvailableRoles \<and>
   getRolePermissions (Some ''guest'') =
     \<lparr>canAddMembers = False, canRemoveMembers = False, canEditMembers = False,
      canManageSettings = False, canModerateContent = False, canViewAnalytics = False,
      canManageBackup = False, canInviteGuests = False\<rparr> \<and>
   None \<notin> Some ` set getAvailableRoles \<and>
   getRolePermissions None =
     \<lparr>canAddMembers = False, canRemoveMembers = False, canEditMembers = False,
      canManageSettings = False, canModerateContent = False, canViewAnalytics = False,
      canManageBackup = False, canInviteGuests = False\<rparr> \<and>
   canViewAnalytics (getRolePermissions (Some ''grandparent'')) \<and>
   \<not> canRemoveMembers (getRolePermissions (Some ''parent''))"
proof -
  have guest: "Some ''guest'' \<notin> Some ` set getAvailableRoles"
    by (simp add: getAvailableRoles_def)
  have missing: "None \<notin> Some ` set getAvailableRoles"
    by simp
  from getRolePermissions_table [of "Some ''guest''"] getRolePermissions_table [of None]
    guest missing
  show ?thesis
    by simp
qed

subsection \<open>Removing oneself\<close>

text \<open>
  Claim C2, as the code has it. An actor who holds the remove capability and names
  their own identifier never removes anything, but the error depends on the stored
  record with that identifier: \<^verbatim>\<open>Family member not found\<close> when there is none,
  \<^verbatim>\<open>Cannot remove admin member\<close> when it is an administrator, and
  \<^verbatim>\<open>Cannot remove yourself\<close> only when it is not. Only the administrator role holds
  the remove capability, so whenever the stored record carries the actor's role the
  error is \<^verbatim>\<open>Cannot remove admin member\<close>: the check of the target's role comes before
  the check for self-removal.
\<close>

theorem removeFamilyMember_self:
  assumes "hasPermission (role adminUser) canRemoveMembers"
  shows "removeFamilyMember rd adminUser (member_id adminUser) st =
           Inl (case find (\<lambda>m. member_id m = member_id adminUser) (getFamilyMembers st) of
                  None \<Rightarrow> Error ''Family member not found''
                | Some member \<Rightarrow>
                    if role member = Some ''admin'' then Error ''Cannot remove admin member''
                    else Error ''Cannot remove yourself'') \<and>
         (\<forall>member.
            find (\<lambda>m. member_id m = member_id adminUser) (getFamilyMembers st) = Some member \<and>
            role member = role adminUser \<longrightarrow>
            removeFamilyMember rd adminUser (member_id adminUser) st =
              Inl (Error ''Cannot remove admin member''))"
proof -
  from assms have adm: "role adminUser = Some ''admin''"
    by (simp add: canRemove_iff_admin)
  show ?thesis
    using assms by (simp add: removeFamilyMember_def Let_def adm split: option.splits)
qed

theorem removeFamilyMember_self_witness:
  "hasPermission (role alice) canRemoveMembers \<and>
   removeFamilyMember rd0 alice (member_id alice) family0 =
     Inl (Error ''Cannot remove admin member'')"
proof -
  have p: "hasPermission (role alice) canRemoveMembers"
    by (simp add: canRemove_iff_admin alice_def)
  have f: "find (\<lambda>m. member_id m = member_id alice) (getFamilyMembers family0) = Some alice"
    by (simp add: getFamilyMembers_def family0_def)
  have r: "role alice = Some ''admin''"
    by (simp add: alice_def)
  from removeFamilyMember_self [OF p, of rd0 family0] f p r show ?thesis
    by simp
qed

text \<open>
  The claim as the specification states it fails for the administrator Alice of the
  scenario: removing herself is refused with \<^verbatim>\<open>Cannot remove admin member\<close>, not with
  \<^verbatim>\<open>Cannot remove yourself\<close>.
\<close>

theorem removeFamilyMember_self_counterexample:
  "hasPermission (role alice) canRemoveMembers \<and>
   removeFamilyMember rd0 alice (member_id alice) family0 =
     Inl (Error ''Cannot remove admin member'') \<and>
   removeFamilyMember rd0 alice (member_id alice) family0 \<noteq>
     Inl (Error ''Cannot remove yourself'')"
  by (simp add: removeFamilyMember_def hasPermission_def getRolePermissions_def alice_def bob_def
      family0_def getFamilyMembers_def Let_def)

subsection \<open>Stored permissions follow the role\<close>




subsection \<open>The admin action log\<close>

text \<open>
  Claim C4. After \<open>logAdminAction\<close> the log is the last 100 entries of the old log
  followed by the new entry, in order; it never has more than 100 entries; and when
  the old log has 100 entries the new log is the old one without its first entry,
  followed by the new entry.
\<close>

theorem logAdminAction_keeps_last_100:
  "getAdminActions (logAdminAction rd admin op target detail st) =
     drop (length (getAdminActions st @ [newAction rd admin op target detail]) - 100)
       (getAdminActions st @ [newAction rd admin op target detail]) \<and>
   length (getAdminActions (logAdminAction rd admin op target detail st)) \<le> 100 \<and>
   (length (getAdminActions st) = 100 \<longrightarrow>
      getAdminActions (logAdminAction rd admin op target detail st) =
        tl (getAdminActions st) @ [newAction rd admin op target detail])"
proof (intro conjI impI)
  let ?new = "newAction rd admin op target detail"
  let ?old = "getAdminActions st"
  show eq: "getAdminActions (logAdminAction rd admin op target detail st) =
      drop (length (?old @ [?new]) - 100) (?old @ [?new])"
    by (simp only: getAdminActions_logAdminAction slice_last_def)
  show "length (getAdminActions (logAdminAction rd admin op target detail st)) \<le> 100"
    by (simp add: eq)
  assume full: "length ?old = 100"
  then have "?old \<noteq> []" by auto
  then have "drop 1 ?old = tl ?old" by (simp add: drop_Suc)
  with full show "getAdminActions (logAdminAction rd admin op target detail st) = tl ?old @ [?new]"
    by (simp add: eq)
qed

theorem logAdminAction_keeps_last_100_witness:
  "length (getAdminActions full_log) = 100 \<and>
   getAdminActions
     (logAdminAction rd0 ''user_1_alice'' remove_member (Some ''user_2_bob'') None full_log) =
     map old_action [2..<101] @
     [newAction rd0 ''user_1_alice'' remove_member (Some ''user_2_bob'') None] \<and>
   length (getAdminActions
             (logAdminAction rd0 ''user_1_alice'' remove_member (Some ''user_2_bob'') None
                full_log)) = 100"
proof -
  have old: "getAdminActions full_log = map old_action [1..<101]"
    by (simp add: getAdminActions_def full_log_def)
  have len: "length (getAdminActions full_log) = 100"
    by (simp add: old)
  have rest: "tl (getAdminActions full_log) = map old_action [2..<101]"
    by (simp only: old map_tl [symmetric] tl_upt Suc_1)
  from logAdminAction_keeps_last_100
         [of rd0 "''user_1_alice''" remove_member "Some ''user_2_bob''" None full_log] len
  have "getAdminActions
          (logAdminAction rd0 ''user_1_alice'' remove_member (Some ''user_2_bob'') None full_log) =
      tl (getAdminActions full_log) @
      [newAction rd0 ''user_1_alice'' remove_member (Some ''user_2_bob'') None]"
    by blast
  with rest len show ?thesis
    by simp
qed

subsection \<open>Authentication\<close>

text \<open>
  Claim C5. When the supplied family code is not the stored one (or none is stored),
  \<open>authenticateFamilyMember\<close> returns \<^verbatim>\<open>null\<close>, its answer for an invalid family code,
  and the whole persisted state, the member collection included, is what it was.
\<close>

theorem authenticate_wrong_code:
  "FAMILY_CODE st \<noteq> Some familyCode \<Longrightarrow>
     authenticateFamilyMember toLowerCase rd familyCode memberName st = (None, st)"
  by (simp add: authenticateFamilyMember_def)

theorem authenticate_wrong_code_witness:
  "FAMILY_CODE family0 \<noteq> Some ''FAM124'' \<and> FAMILY_CODE empty_storage \<noteq> Some ''FAM123'' \<and>
   authenticateFamilyMember lower_ascii rd0 ''FAM124'' ''Bob'' family0 = (None, family0) \<and>
   authenticateFamilyMember lower_ascii rd0 ''FAM123'' ''Bob'' empty_storage =
     (None, empty_storage)"
proof -
  have 1: "FAMILY_CODE family0 \<noteq> Some ''FAM124''"
    by (simp add: family0_def)
  have 2: "FAMILY_CODE empty_storage \<noteq> Some ''FAM123''"
    by (simp add: empty_storage_def)
  from authenticate_wrong_code [OF 1, of lower_ascii rd0 "''Bob''"]
    authenticate_wrong_code [OF 2, of lower_ascii rd0 "''Bob''"] 1 2
  show ?thesis
    by simp
qed

text \<open>
  Claim C6. On the empty store \<open>createFamily\<close> succeeds, and
  \<open>authenticateFamilyMember\<close> with the same code and name then returns a member with the
  identifier of the member \<open>createFamily\<close> made; the member collection holds that one
  member and no other. The readings of clock and random source of the two calls are
  independent.
\<close>

theorem createFamily_then_authenticate:
  "\<exists>adminMember st1 user st2.
     createFamily rd familyCode memberName empty_storage = Inr (adminMember, st1) \<and>
     authenticateFamilyMember toLowerCase rd' familyCode memberName st1 = (Some user, st2) \<and>
     member_id user = member_id adminMember \<and>
     length (getFamilyMembers st2) = 1 \<and>
     map member_id (getFamilyMembers st2) = [member_id adminMember]"
  by (simp add: createFamily_def authenticateFamilyMember_def empty_storage_def truthy_def
      saveFamilyMembers_def setCurrentUser_def saveFamilySettings_def getFamilyMembers_def Let_def)

subsection \<open>Editing a member and the log\<close>

text \<open>
  Claim C7, as the code has it. Every successful \<open>editFamilyMember\<close> appends one
  Admin Action record to the log (operation \<^verbatim>\<open>edit_member\<close>, the actor, the target
  and the target's previous name), whether or not a field of the member changed; the
  log then keeps its last 100 entries.
\<close>

theorem editFamilyMember_always_logs:
  assumes "editFamilyMember rd adminUser memberId updates st = Inr (updated, st')"
  shows "\<exists>member \<in> set (getFamilyMembers st).
           member_id member = memberId \<and>
           getAdminActions st' =
             slice_last 100
               (getAdminActions st @
                [newAction rd (member_id adminUser) edit_member (Some memberId)
                   (Some (''Edited family member: '' @ name member))])"
proof -
  from assms obtain i where
    i: "findIndex (\<lambda>member. member_id member = memberId) (getFamilyMembers st) = Some i"
    by (auto simp: editFamilyMember_def Let_def split: if_splits option.splits)
  let ?member = "getFamilyMembers st ! i"
  from findIndex_Some [OF i] have mem: "?member \<in> set (getFamilyMembers st)"
    and mid: "member_id ?member = memberId"
    by simp_all
  from assms i have "getAdminActions st' =
      slice_last 100
        (getAdminActions st @
         [newAction rd (member_id adminUser) edit_member (Some memberId)
            (Some (''Edited family member: '' @ name ?member))])"
    by (auto simp: editFamilyMember_def Let_def getAdminActions_logAdminAction split: if_splits)
  with mem mid show ?thesis by blast
qed

theorem editFamilyMember_always_logs_witness:
  "editFamilyMember rd0 alice ''user_2_bob'' (no_updates\<lparr>u_name := Some ''Bobby''\<rparr>) family0 =
     Inr (bob\<lparr>name := ''Bobby''\<rparr>,
          family0
            \<lparr>FAMILY_MEMBERS := Some [alice, bob\<lparr>name := ''Bobby''\<rparr>],
             ADMIN_ACTIONS :=
               Some [newAction rd0 ''user_1_alice'' edit_member (Some ''user_2_bob'')
                       (Some ''Edited family member: Bob'')]\<rparr>) \<and>
   (\<exists>member \<in> set (getFamilyMembers family0).
      member_id member = ''user_2_bob'' \<and>
      [newAction rd0 ''user_1_alice'' edit_member (Some ''user_2_bob'')
         (Some ''Edited family member: Bob'')] =
        slice_last 100
          (getAdminActions family0 @
           [newAction rd0 (member_id alice) edit_member (Some ''user_2_bob'')
              (Some (''Edited family member: '' @ name member))]))"
proof -
  have run:
    "editFamilyMember rd0 alice ''user_2_bob'' (no_updates\<lparr>u_name := Some ''Bobby''\<rparr>) family0 =
       Inr (bob\<lparr>name := ''Bobby''\<rparr>,
            family0
              \<lparr>FAMILY_MEMBERS := Some [alice, bob\<lparr>name := ''Bobby''\<rparr>],
               ADMIN_ACTIONS :=
                 Some [newAction rd0 ''user_1_alice'' edit_member (Some ''user_2_bob'')
                         (Some ''Edited family member: Bob'')]\<rparr>)"
    by (simp add: editFamilyMember_def hasPermission_def getRolePermissions_def alice_def bob_def
        family0_def getFamilyMembers_def Let_def no_updates_def truthy_def updates_role_def spread_def
        saveFamilyMembers_def logAdminAction_def)
  have logged:
    "getAdminActions
       (family0
          \<lparr>FAMILY_MEMBERS := Some [alice, bob\<lparr>name := ''Bobby''\<rparr>],
           ADMIN_ACTIONS :=
             Some [newAction rd0 ''user_1_alice'' edit_member (Some ''user_2_bob'')
                     (Some ''Edited family member: Bob'')]\<rparr>) =
       [newAction rd0 ''user_1_alice'' edit_member (Some ''user_2_bob'')
          (Some ''Edited family member: Bob'')]"
    by (simp add: getAdminActions_def)
  from editFamilyMember_always_logs [OF run] logged run show ?thesis
    by simp
qed

text \<open>
  The claim as the specification states it fails: Alice edits Bob with an update that
  has no key at all. The call succeeds, Bob and the member list are what they were, and
  the log, empty before, has one record.
\<close>

theorem editFamilyMember_no_change_counterexample:
  "editFamilyMember rd0 alice ''user_2_bob'' no_updates family0 =
     Inr (bob,
          family0
            \<lparr>FAMILY_MEMBERS := Some [alice, bob],
             ADMIN_ACTIONS :=
               Some [newAction rd0 ''user_1_alice'' edit_member (Some ''user_2_bob'')
                       (Some ''Edited family member: Bob'')]\<rparr>) \<and>
   getFamilyMembers family0 = [alice, bob] \<and>
   getAdminActions family0 = []"
  by (simp add: editFamilyMember_def hasPermission_def getRolePermissions_def alice_def bob_def
      family0_def getFamilyMembers_def getAdminActions_def Let_def no_updates_def
      truthy_def updates_role_def spread_def saveFamilyMembers_def logAdminAction_def)

subsection \<open>The message store\<close>

text \<open>
  Claim C8, as the code has it. With a current user and a text that is not empty once
  the white space at its ends is removed, \<open>sendMessage\<close> builds one message: its
  identifier is \<^verbatim>\<open>msg_\<close>, the clock reading, \<^verbatim>\<open>_\<close> and the random suffix; the sender
  is the current user, the receiver the route's member; the content is the trimmed
  text; the type is text. The persisted collection becomes the stored messages followed
  by that message, and so does the list on the screen. Without a current user, or with
  a text that is empty once trimmed, \<open>sendMessage\<close> changes neither the screen nor the
  store.
\<close>

theorem sendMessage_appends:
  "(currentUser cs = Some user \<and> trim (newMessage cs) \<noteq> [] \<longrightarrow>
      (\<exists>message.
         sendMessage rd routeChatId routeMemberId cs st =
           (cs\<lparr>messages := messages cs @ [message], newMessage := []\<rparr>,
            st\<lparr>MESSAGES := Some (getMessages st @ [message])\<rparr>) \<and>
         msg_id message = ''msg_'' @ decimal (msg_time rd) @ ''_'' @ msg_rand rd \<and>
         senderId message = member_id user \<and>
         receiverId message = routeMemberId \<and>
         content message = trim (newMessage cs) \<and>
         msg_type message = text_msg \<and>
         msg_timestamp message = sent_time rd)) \<and>
   (currentUser cs = None \<or> trim (newMessage cs) = [] \<longrightarrow>
      sendMessage rd routeChatId routeMemberId cs st = (cs, st))"
proof (intro conjI impI)
  assume "currentUser cs = Some user \<and> trim (newMessage cs) \<noteq> []"
  then have sent:
    "sendMessage rd routeChatId routeMemberId cs st =
       (cs\<lparr>messages :=
              messages cs @ [newChatMessage rd routeChatId routeMemberId user (newMessage cs)],
           newMessage := []\<rparr>,
        st\<lparr>MESSAGES :=
              Some (getMessages st @
                    [newChatMessage rd routeChatId routeMemberId user (newMessage cs)])\<rparr>)"
    by (simp add: sendMessage_def addMessage_def saveMessages_def Let_def)
  show "\<exists>message.
         sendMessage rd routeChatId routeMemberId cs st =
           (cs\<lparr>messages := messages cs @ [message], newMessage := []\<rparr>,
            st\<lparr>MESSAGES := Some (getMessages st @ [message])\<rparr>) \<and>
         msg_id message = ''msg_'' @ decimal (msg_time rd) @ ''_'' @ msg_rand rd \<and>
         senderId message = member_id user \<and>
         receiverId message = routeMemberId \<and>
         content message = trim (newMessage cs) \<and>
         msg_type message = text_msg \<and>
         msg_timestamp message = sent_time rd"
    by (rule exI [of _ "newChatMessage rd routeChatId routeMemberId user (newMessage cs)"])
      (simp add: sent newChatMessage_def)
next
  assume "currentUser cs = None \<or> trim (newMessage cs) = []"
  then show "sendMessage rd routeChatId routeMemberId cs st = (cs, st)"
    by (auto simp: sendMessage_def split: option.splits)
qed

theorem sendMessage_appends_witness:
  "currentUser chat0 = Some alice \<and> trim (newMessage chat0) = ''hi Bob'' \<and>
   (\<exists>message.
      getMessages (snd (sendMessage rd0 None (Some ''user_2_bob'') chat0 family0)) = [message] \<and>
      messages (fst (sendMessage rd0 None (Some ''user_2_bob'') chat0 family0)) = [message] \<and>
      senderId message = ''user_1_alice'' \<and> receiverId message = Some ''user_2_bob'' \<and>
      content message = ''hi Bob'') \<and>
   trim (newMessage (chat0\<lparr>newMessage := [CHR 0xC2, CHR 0xA0]\<rparr>)) = [] \<and>
   sendMessage rd0 None (Some ''user_2_bob'') (chat0\<lparr>newMessage := [CHR 0xC2, CHR 0xA0]\<rparr>)
     family0 =
     (chat0\<lparr>newMessage := [CHR 0xC2, CHR 0xA0]\<rparr>, family0)"
proof -
  have u: "currentUser chat0 = Some alice"
    by (simp add: chat0_def)
  have t: "trim (newMessage chat0) = ''hi Bob''"
    by (simp add: chat0_def trim_hi_bob)
  then have n: "trim (newMessage chat0) \<noteq> []"
    by simp
  have e: "getMessages family0 = []" "messages chat0 = []"
    by (simp_all add: getMessages_def family0_def chat0_def)
  have a: "member_id alice = ''user_1_alice''"
    by (simp add: alice_def)
  have b: "trim (newMessage (chat0\<lparr>newMessage := [CHR 0xC2, CHR 0xA0]\<rparr>)) = []"
    by (simp add: trim_no_break_space)
  from sendMessage_appends [of chat0 alice rd0 None "Some ''user_2_bob''" family0] u n
  obtain message where
    m: "sendMessage rd0 None (Some ''user_2_bob'') chat0 family0 =
          (chat0\<lparr>messages := messages chat0 @ [message], newMessage := []\<rparr>,
           family0\<lparr>MESSAGES := Some (getMessages family0 @ [message])\<rparr>)"
    and p: "senderId message = member_id alice" "receiverId message = Some ''user_2_bob''"
      "content message = trim (newMessage chat0)"
    by blast
  from m e have first:
    "getMessages (snd (sendMessage rd0 None (Some ''user_2_bob'') chat0 family0)) = [message]"
    "messages (fst (sendMessage rd0 None (Some ''user_2_bob'') chat0 family0)) = [message]"
    by (simp_all add: getMessages_def)
  from sendMessage_appends
         [of "chat0\<lparr>newMessage := [CHR 0xC2, CHR 0xA0]\<rparr>" alice rd0 None "Some ''user_2_bob''"
            family0] b
  have second:
    "sendMessage rd0 None (Some ''user_2_bob'') (chat0\<lparr>newMessage := [CHR 0xC2, CHR 0xA0]\<rparr>)
       family0 =
       (chat0\<lparr>newMessage := [CHR 0xC2, CHR 0xA0]\<rparr>, family0)"
    by blast
  from first p t a have "\<exists>message.
      getMessages (snd (sendMessage rd0 None (Some ''user_2_bob'') chat0 family0)) = [message] \<and>
      messages (fst (sendMessage rd0 None (Some ''user_2_bob'') chat0 family0)) = [message] \<and>
      senderId message = ''user_1_alice'' \<and> receiverId message = Some ''user_2_bob'' \<and>
      content message = ''hi Bob''"
    by auto
  with u t b second show ?thesis
    by (intro conjI)
qed

text \<open>
  The claim as the specification states it fails twice. A text of two spaces, which is
  not empty, is never sent: screen and store stay as they were. And the message Alice
  does send to Bob is not stored with the delivery status \<^verbatim>\<open>sent\<close>.
\<close>

theorem sendMessage_counterexample:
  "newMessage (chat0\<lparr>newMessage := ''  ''\<rparr>) \<noteq> [] \<and>
   sendMessage rd0 None (Some ''user_2_bob'') (chat0\<lparr>newMessage := ''  ''\<rparr>) family0 =
     (chat0\<lparr>newMessage := ''  ''\<rparr>, family0) \<and>
   newMessage chat0 \<noteq> [] \<and>
   length (getMessages (snd (sendMessage rd0 None (Some ''user_2_bob'') chat0 family0))) = 1 \<and>
   msg_status (last (getMessages (snd (sendMessage rd0 None (Some ''user_2_bob'') chat0 family0))))
     \<noteq> Some sent"
  by (simp add: sendMessage_def addMessage_def saveMessages_def getMessages_def Let_def chat0_def
      family0_def trim_hi_bob trim_two_spaces newChatMessage_def)

text \<open>
  Claim C9. Opened for a member \<open>a\<close> (no chat identifier in the route, a current user
  \<open>u\<close> stored), the chat screen shows exactly the stored messages whose pair of sender
  and receiver is the pair of \<open>a\<close> and \<open>u\<close>, in either direction, in the order of the
  stored collection.
\<close>

theorem loadChatData_member_chat:
  assumes "\<not> truthy routeChatId" and "a \<noteq> []" and "CURRENT_USER st = Some u"
  shows "messages (loadChatData rd routeChatId (Some a) st cs) =
           filter (\<lambda>msg. {Some (senderId msg), receiverId msg} = {Some a, Some (member_id u)})
             (getMessages st) \<and>
         subseq (messages (loadChatData rd routeChatId (Some a) st cs)) (getMessages st)"
proof -
  have pair: "\<And>msg. ({Some (senderId msg), receiverId msg} = {Some a, Some (member_id u)}) =
      ((Some (senderId msg) = Some a \<and> receiverId msg = Some (member_id u)) \<or>
       (Some (senderId msg) = Some (member_id u) \<and> receiverId msg = Some a))"
    by (simp only: doubleton_eq_iff)
  have "messages (loadChatData rd routeChatId (Some a) st cs) =
      filter (\<lambda>msg. (Some (senderId msg) = Some a \<and> receiverId msg = Some (member_id u)) \<or>
                     (Some (senderId msg) = Some (member_id u) \<and> receiverId msg = Some a))
        (getMessages st)"
    using assms by (simp add: loadChatData_def getCurrentUser_def truthy_def Let_def)
  then have eq: "messages (loadChatData rd routeChatId (Some a) st cs) =
      filter (\<lambda>msg. {Some (senderId msg), receiverId msg} = {Some a, Some (member_id u)})
        (getMessages st)"
    by (simp only: pair)
  show ?thesis
    by (simp only: eq subseq_filter_left simp_thms)
qed

theorem loadChatData_member_chat_witness:
  "\<not> truthy None \<and> ''user_2_bob'' \<noteq> [] \<and> CURRENT_USER mailbox = Some alice \<and>
   messages (loadChatData rd0 None (Some ''user_2_bob'') mailbox chat0) =
     [letter ''user_1_alice'' ''user_2_bob'' ''one'',
      letter ''user_2_bob'' ''user_1_alice'' ''two'',
      letter ''user_1_alice'' ''user_2_bob'' ''five'']"
proof -
  have c: "\<not> truthy None"
    by (simp add: truthy_def)
  have b: "''user_2_bob'' \<noteq> []"
    by simp
  have u: "CURRENT_USER mailbox = Some alice"
    by (simp add: mailbox_def family0_def)
  have "filter (\<lambda>msg. {Some (senderId msg), receiverId msg} =
                       {Some ''user_2_bob'', Some (member_id alice)}) (getMessages mailbox) =
      [letter ''user_1_alice'' ''user_2_bob'' ''one'',
       letter ''user_2_bob'' ''user_1_alice'' ''two'',
       letter ''user_1_alice'' ''user_2_bob'' ''five'']"
    by (simp add: getMessages_def mailbox_def letter_def alice_def doubleton_eq_iff)
  with loadChatData_member_chat [OF c b u, of rd0 chat0] c b u show ?thesis
    by simp
qed

subsection \<open>Promotion to administrator\<close>

text \<open>
  Claim C10. \<open>changeMemberRole\<close> does not prevent promotion to administrator. There
  is a run of it, by an administrator on a store with one administrator and a member
  who is not one, that changes that member to the role \<^verbatim>\<open>admin\<close>: it succeeds, the
  member it returns is the target with the administrator role, that member is stored,
  the stored identifiers are what they were, and the member list has two
  administrators. In general, for every actor who may edit members and every target
  whose first stored record is not an administrator, the call succeeds, stores the
  target as an administrator and leaves one administrator more than before. All the
  same \<open>canChangeRole\<close>, which \<open>changeMemberRole\<close> does not call, is false for every
  change to \<^verbatim>\<open>admin\<close>.
\<close>

theorem changeMemberRole_allows_second_admin:
  "(\<exists>rd adminUser memberId st updated st'.
      role adminUser = Some ''admin'' \<and>
      length (filter (\<lambda>m. role m = Some ''admin'') (getFamilyMembers st)) = 1 \<and>
      (\<exists>m \<in> set (getFamilyMembers st). member_id m = memberId \<and> role m \<noteq> Some ''admin'') \<and>
      changeMemberRole rd adminUser memberId ''admin'' st = Inr (updated, st') \<and>
      member_id updated = memberId \<and>
      role updated = Some ''admin'' \<and>
      updated \<in> set (getFamilyMembers st') \<and>
      map member_id (getFamilyMembers st') = map member_id (getFamilyMembers st) \<and>
      length (filter (\<lambda>m. role m = Some ''admin'') (getFamilyMembers st')) = 2) \<and>
   (\<forall>member.
      hasPermission (role actor) canEditMembers \<and>
      find (\<lambda>m. member_id m = target) (getFamilyMembers store) = Some member \<and>
      role member \<noteq> Some ''admin'' \<longrightarrow>
      (\<exists>store'.
         changeMemberRole rdg actor target ''admin'' store =
           Inr (member\<lparr>role := Some ''admin'',
                        permissions := getRolePermissions (Some ''admin'')\<rparr>,
                store') \<and>
         member\<lparr>role := Some ''admin'', permissions := getRolePermissions (Some ''admin'')\<rparr>
           \<in> set (getFamilyMembers store') \<and>
         length (filter (\<lambda>m. role m = Some ''admin'') (getFamilyMembers store')) =
           Suc (length (filter (\<lambda>m. role m = Some ''admin'') (getFamilyMembers store))))) \<and>
   (\<forall>currentRole adminRole. \<not> canChangeRole currentRole (Some ''admin'') adminRole)"
proof (intro conjI allI impI)
  let ?bob' = "bob\<lparr>role := Some ''admin'', permissions := getRolePermissions (Some ''admin'')\<rparr>"
  let ?st' = "logAdminAction rd0 ''user_1_alice'' change_role (Some ''user_2_bob'')
            (Some ''Changed role of Bob from child to admin'')
            (saveFamilyMembers [alice, ?bob'] family0)"
  have 1: "role alice = Some ''admin''"
    by (simp add: alice_def)
  have 2: "length (filter (\<lambda>m. role m = Some ''admin'') (getFamilyMembers family0)) = 1"
    by (simp add: getFamilyMembers_def family0_def alice_def bob_def)
  have 3: "\<exists>m \<in> set (getFamilyMembers family0).
      member_id m = ''user_2_bob'' \<and> role m \<noteq> Some ''admin''"
    by (simp add: getFamilyMembers_def family0_def alice_def bob_def)
  have 4: "member_id ?bob' = ''user_2_bob''" "role ?bob' = Some ''admin''"
    by (simp_all add: bob_def)
  have 5: "?bob' \<in> set (getFamilyMembers ?st')"
    by simp
  have before: "getFamilyMembers family0 = [alice, bob]"
    by (simp add: getFamilyMembers_def family0_def)
  have 6: "map member_id (getFamilyMembers ?st') = map member_id (getFamilyMembers family0)"
    by (simp add: before)
  have 7: "length (filter (\<lambda>m. role m = Some ''admin'') (getFamilyMembers ?st')) = 2"
    by (simp add: alice_def)
  show "\<exists>rd adminUser memberId st updated st'.
      role adminUser = Some ''admin'' \<and>
      length (filter (\<lambda>m. role m = Some ''admin'') (getFamilyMembers st)) = 1 \<and>
      (\<exists>m \<in> set (getFamilyMembers st). member_id m = memberId \<and> role m \<noteq> Some ''admin'') \<and>
      changeMemberRole rd adminUser memberId ''admin'' st = Inr (updated, st') \<and>
      member_id updated = memberId \<and>
      role updated = Some ''admin'' \<and>
      updated \<in> set (getFamilyMembers st') \<and>
      map member_id (getFamilyMembers st') = map member_id (getFamilyMembers st) \<and>
      length (filter (\<lambda>m. role m = Some ''admin'') (getFamilyMembers st')) = 2"
    using 1 2 3 4 5 6 7 promote_bob
    apply -
    apply (rule exI [of _ rd0])
    apply (rule exI [of _ alice])
    apply (rule exI [of _ "''user_2_bob''"])
    apply (rule exI [of _ family0])
    apply (rule exI [of _ "?bob'"])
    apply (rule exI [of _ "?st'"])
    apply (intro conjI; assumption)
    done
next
  fix member
  assume a: "hasPermission (role actor) canEditMembers \<and>
      find (\<lambda>m. member_id m = target) (getFamilyMembers store) = Some member \<and>
      role member \<noteq> Some ''admin''"
  then have found: "find (\<lambda>m. member_id m = target) (getFamilyMembers store) = Some member"
    by simp
  from find_findIndex [OF found]
  obtain i where i: "findIndex (\<lambda>m. member_id m = target) (getFamilyMembers store) = Some i"
    and at: "getFamilyMembers store ! i = member"
    by (elim exE conjE)
  from findIndex_Some [OF i] have len: "i < length (getFamilyMembers store)"
    by simp
  let ?new = "member\<lparr>role := Some ''admin'', permissions := getRolePermissions (Some ''admin'')\<rparr>"
  let ?store' = "logAdminAction rdg (member_id actor) change_role (Some target)
      (Some (''Changed role of '' @ name member @ '' from '' @ interpolate (role member) @
             '' to '' @ ''admin''))
      (saveFamilyMembers ((getFamilyMembers store)[i := ?new]) store)"
  from a at changeMemberRole_result [OF _ i, of actor rdg "''admin''"]
  have run: "changeMemberRole rdg actor target ''admin'' store = Inr (?new, ?store')"
    by simp
  from len have stored: "?new \<in> set (getFamilyMembers ?store')"
    by (simp add: set_update_memI)
  from a at len
  have more: "length (filter (\<lambda>m. role m = Some ''admin'') (getFamilyMembers ?store')) =
      Suc (length (filter (\<lambda>m. role m = Some ''admin'') (getFamilyMembers store)))"
    by (simp add: filter_update_count)
  from run stored more
  show "\<exists>store'.
      changeMemberRole rdg actor target ''admin'' store = Inr (?new, store') \<and>
      ?new \<in> set (getFamilyMembers store') \<and>
      length (filter (\<lambda>m. role m = Some ''admin'') (getFamilyMembers store')) =
        Suc (length (filter (\<lambda>m. role m = Some ''admin'') (getFamilyMembers store)))"
    by blast
next
  fix currentRole adminRole
  show "\<not> canChangeRole currentRole (Some ''admin'') adminRole"
    by (simp add: canChangeRole_def)
qed



theorem changeMemberRole_allows_second_admin_witness:
  "hasPermission (role alice) canEditMembers \<and>
   find (\<lambda>m. member_id m = ''user_2_bob'') (getFamilyMembers family0) = Some bob \<and>
   role bob \<noteq> Some ''admin'' \<and>
   length (filter (\<lambda>m. role m = Some ''admin'') (getFamilyMembers family0)) = 1 \<and>
   (\<exists>store'.
      changeMemberRole rd0 alice ''user_2_bob'' ''admin'' family0 =
        Inr (bob\<lparr>role := Some ''admin'', permissions := getRolePermissions (Some ''admin'')\<rparr>,
             store') \<and>
      bob\<lparr>role := Some ''admin'', permissions := getRolePermissions (Some ''admin'')\<rparr>
        \<in> set (getFamilyMembers store') \<and>
      length (filter (\<lambda>m. role m = Some ''admin'') (getFamilyMembers store')) = 2)"
proof -
  have p: "hasPermission (role alice) canEditMembers"
    by (simp add: hasPermission_def getRolePermissions_def alice_def)
  have f: "find (\<lambda>m. member_id m = ''user_2_bob'') (getFamilyMembers family0) = Some bob"
    by (simp add: getFamilyMembers_def family0_def alice_def bob_def)
  have r: "role bob \<noteq> Some ''admin''"
    by (simp add: bob_def)
  have one: "length (filter (\<lambda>m. role m = Some ''admin'') (getFamilyMembers family0)) = 1"
    by (simp add: getFamilyMembers_def family0_def alice_def bob_def)
  have prem: "hasPermission (role alice) canEditMembers \<and>
      find (\<lambda>m. member_id m = ''user_2_bob'') (getFamilyMembers family0) = Some bob \<and>
      role bob \<noteq> Some ''admin''"
    using p f r by (intro conjI)
  note general =
    changeMemberRole_allows_second_admin
      [where actor = alice and target = "''user_2_bob''" and store = family0 and rdg = rd0,
       THEN conjunct2, THEN conjunct1, THEN spec, THEN mp, OF prem]
  from general obtain store' where
    run: "changeMemberRole rd0 alice ''user_2_bob'' ''admin'' family0 =
        Inr (bob\<lparr>role := Some ''admin'', permissions := getRolePermissions (Some ''admin'')\<rparr>,
             store')"
    and stored:
      "bob\<lparr>role := Some ''admin'', permissions := getRolePermissions (Some ''admin'')\<rparr>
        \<in> set (getFamilyMembers store')"
    and more: "length (filter (\<lambda>m. role m = Some ''admin'') (getFamilyMembers store')) =
        Suc (length (filter (\<lambda>m. role m = Some ''admin'') (getFamilyMembers family0)))"
    by (elim exE conjE)
  from more one
  have two: "length (filter (\<lambda>m. role m = Some ''admin'') (getFamilyMembers store')) = 2"
    by simp
  from run stored two have last: "\<exists>store'.
      changeMemberRole rd0 alice ''user_2_bob'' ''admin'' family0 =
        Inr (bob\<lparr>role := Some ''admin'', permissions := getRolePermissions (Some ''admin'')\<rparr>,
             store') \<and>
      bob\<lparr>role := Some ''admin'', permissions := getRolePermissions (Some ''admin'')\<rparr>
        \<in> set (getFamilyMembers store') \<and>
      length (filter (\<lambda>m. role m = Some ''admin'') (getFamilyMembers store')) = 2"
    by (intro exI [of _ store'] conjI)
  from p f r one last show ?thesis
    by (intro conjI)
qed

end
